theory Spec2Isabelle
  imports Complex_Main
begin

section \<open>Python values, classes and errors\<close>

text \<open>
  The module \<^verbatim>\<open>pymvc/model/datatypes.py\<close> is dynamically typed, so the embedding starts
  with the part of the Python value universe the descriptors touch. Every exception the
  code can raise is a value of \<open>error\<close>; a Python call that may raise returns
  \<open>error + 'a\<close> with \<open>Inl\<close> for the exception.

  The specification's error names stand for these Python exceptions: ConfigurationError
  is the \<^verbatim>\<open>TypeError\<close> raised by \<^verbatim>\<open>ModelTypeBase.__init__\<close>, ConversionError is the
  \<^verbatim>\<open>ValueError\<close> raised by \<^verbatim>\<open>uuid.UUID\<close> and by an enumeration lookup. \<open>Raised\<close> carries
  the exceptions of the collaborators (model registry, loader, hashing module).
\<close>

datatype error = TypeError | ValueError | AttributeError | Raised string

text \<open>
  A float is a finite number (a real), an infinity (\<open>True\<close> for the positive one) or a
  NaN. A NaN carries the identity of its object: NaN is the one value that \<^verbatim>\<open>==\<close> does
  not relate to itself, while a dictionary lookup and the comparison of two lists test
  identity before \<^verbatim>\<open>==\<close>, so for a NaN it matters whether two occurrences are one object.
\<close>

datatype pyfloat = Finite real | Infinity bool | NaN nat

text \<open>
  A \<^verbatim>\<open>uuid.UUID\<close> is its \<^verbatim>\<open>int\<close> field. An enumeration member is the name of its
  class, its own name and its value. Any other object (a model instance, a hashed value)
  is \<open>VObj\<close>: its identity, the name of its class and the attributes \<^verbatim>\<open>getattr\<close> finds
  on it. A character of a string is a code point below 256.
\<close>

datatype pyval =
    VNone
  | VBool bool
  | VInt int
  | VFloat pyfloat
  | VStr string
  | VDatetime int
  | VUuid nat
  | VList "pyval list"
  | VEnum string string pyval
  | VObj nat string "(string \<times> pyval) list"

text \<open>
  A subclass of \<^verbatim>\<open>enum.Enum\<close>: its name and the entries of its class body in order.
  An entry whose value equals the value of an earlier entry is an alias of that member.
\<close>

record enum_class =
  enum_name :: string
  entries :: "(string \<times> pyval) list"

text \<open>
  A subclass of \<^verbatim>\<open>Model\<close> (module \<^verbatim>\<open>model_base\<close>, a collaborator): what
  \<^verbatim>\<open>get_primary_key_name()\<close> returns and what \<^verbatim>\<open>load(**kwargs)\<close> returns for given
  keyword arguments.
\<close>

record model_class =
  model_name :: string
  get_primary_key_name :: "error + string"
  load :: "(string \<times> pyval) list \<Rightarrow> error + pyval"

datatype descr_class =
    StringType | IntType | FloatType | UniqueIdType | ListType
  | ForeignType | EnumType | DatetimeType | BoolType | HashType

text \<open>Class objects: the builtin ones, \<^verbatim>\<open>Hashed\<close>, enumerations, models, the descriptor
  classes of this module, and any other class by name.\<close>

datatype pytype =
    TStr | TInt | TFloat | TBool | TDatetime | TUuid | TList | THashed
  | TEnum enum_class
  | TModel model_class
  | TDescr descr_class
  | TOther string

text \<open>\<^verbatim>\<open>isinstance(v, t)\<close>; \<^verbatim>\<open>bool\<close> is a subclass of \<^verbatim>\<open>int\<close>.\<close>

definition isinstance :: "pyval \<Rightarrow> pytype \<Rightarrow> bool" where
  "isinstance v t =
     (case t of
        TStr \<Rightarrow> (case v of VStr _ \<Rightarrow> True | _ \<Rightarrow> False)
      | TInt \<Rightarrow> (case v of VInt _ \<Rightarrow> True | VBool _ \<Rightarrow> True | _ \<Rightarrow> False)
      | TFloat \<Rightarrow> (case v of VFloat _ \<Rightarrow> True | _ \<Rightarrow> False)
      | TBool \<Rightarrow> (case v of VBool _ \<Rightarrow> True | _ \<Rightarrow> False)
      | TDatetime \<Rightarrow> (case v of VDatetime _ \<Rightarrow> True | _ \<Rightarrow> False)
      | TUuid \<Rightarrow> (case v of VUuid _ \<Rightarrow> True | _ \<Rightarrow> False)
      | TList \<Rightarrow> (case v of VList _ \<Rightarrow> True | _ \<Rightarrow> False)
      | THashed \<Rightarrow> (case v of VObj _ c _ \<Rightarrow> c = ''Hashed'' | _ \<Rightarrow> False)
      | TEnum E \<Rightarrow> (case v of VEnum e _ _ \<Rightarrow> e = enum_name E | _ \<Rightarrow> False)
      | TModel M \<Rightarrow> (case v of VObj _ c _ \<Rightarrow> c = model_name M | _ \<Rightarrow> False)
      | TDescr _ \<Rightarrow> False
      | TOther _ \<Rightarrow> False)"

text \<open>The three \<^verbatim>\<open>issubclass\<close> tests of \<^verbatim>\<open>ListType\<close>.\<close>

definition issubclass_Model :: "pytype \<Rightarrow> bool" where
  "issubclass_Model dt = (case dt of TModel _ \<Rightarrow> True | _ \<Rightarrow> False)"

definition issubclass_Enum :: "pytype \<Rightarrow> bool" where
  "issubclass_Enum dt = (case dt of TEnum _ \<Rightarrow> True | _ \<Rightarrow> False)"

definition issubclass_ModelTypeBase :: "pytype \<Rightarrow> bool" where
  "issubclass_ModelTypeBase dt = (case dt of TDescr _ \<Rightarrow> True | _ \<Rightarrow> False)"

text \<open>
  What the module takes from the running interpreter and from its collaborators:
  the value \<^verbatim>\<open>uuid.uuid4()\<close> had when the \<^verbatim>\<open>def\<close> of \<^verbatim>\<open>UniqueIdType.__init__\<close> was
  executed (Python evaluates a parameter default once, at that moment), the registry
  function \<^verbatim>\<open>get_loaded_model\<close>, the constructor of \<^verbatim>\<open>Hashed\<close>, and \<^verbatim>\<open>str\<close> and
  attribute access on values whose class is not modelled here.
\<close>

record interp =
  uuid4_at_def :: nat
  get_loaded_model :: "string \<Rightarrow> error + model_class"
  Hashed :: "pyval \<Rightarrow> error + pyval"
  str_other :: "pyval \<Rightarrow> string"
  attr_other :: "pyval \<Rightarrow> string \<Rightarrow> pyval option"

section \<open>Python equality\<close>

text \<open>
  \<open>py_eq x y\<close> is \<^verbatim>\<open>x is y or x == y\<close>, the test that a dictionary lookup applies to a
  key and that the comparison of two lists applies to their elements. Numbers compare by
  value across \<^verbatim>\<open>bool\<close>, \<^verbatim>\<open>int\<close> and \<^verbatim>\<open>float\<close>, and a NaN only with itself (the same
  object); lists compare element by element; members of an enumeration and other objects
  by identity.
\<close>

fun num_val :: "pyval \<Rightarrow> pyfloat option" where
  "num_val (VBool b) = Some (Finite (if b then 1 else 0))"
| "num_val (VInt i) = Some (Finite (of_int i))"
| "num_val (VFloat f) = Some f"
| "num_val _ = None"

fun py_eq :: "pyval \<Rightarrow> pyval \<Rightarrow> bool" where
  "py_eq (VList xs) y = (case y of VList ys \<Rightarrow> list_all2 py_eq xs ys | _ \<Rightarrow> False)"
| "py_eq (VEnum e n v) y = (case y of VEnum e' n' v' \<Rightarrow> e = e' \<and> n = n' | _ \<Rightarrow> False)"
| "py_eq (VObj i c a) y = (case y of VObj j c' a' \<Rightarrow> i = j | _ \<Rightarrow> False)"
| "py_eq VNone y = (y = VNone)"
| "py_eq (VStr s) y = (y = VStr s)"
| "py_eq (VDatetime t) y = (y = VDatetime t)"
| "py_eq (VUuid u) y = (y = VUuid u)"
| "py_eq (VBool b) y = (num_val y = Some (Finite (if b then 1 else 0)))"
| "py_eq (VInt i) y = (num_val y = Some (Finite (of_int i)))"
| "py_eq (VFloat f) y = (num_val y = Some f)"

text \<open>
  The operator \<^verbatim>\<open>x == y\<close>. It is \<open>py_eq\<close> except at a NaN, which equals nothing, not
  even itself; inside a list a NaN is compared as an element, by \<open>py_eq\<close>.
\<close>

definition is_nan :: "pyval \<Rightarrow> bool" where
  "is_nan v = (case v of VFloat (NaN i) \<Rightarrow> True | _ \<Rightarrow> False)"

definition py_equals :: "pyval \<Rightarrow> pyval \<Rightarrow> bool" where
  "py_equals x y = (\<not> is_nan x \<and> \<not> is_nan y \<and> py_eq x y)"

section \<open>Library calls used by the descriptors\<close>

subsection \<open>Strings\<close>

text \<open>\<^verbatim>\<open>s.replace(p, '')\<close> for a non-empty \<open>p\<close>: every occurrence of \<open>p\<close>, found
  from the left, is removed.\<close>

function remove_sub :: "string \<Rightarrow> string \<Rightarrow> string" where
  "remove_sub p s =
     (if s = [] then []
      else if p \<noteq> [] \<and> take (length p) s = p then remove_sub p (drop (length p) s)
      else hd s # remove_sub p (tl s))"
  by pat_completeness auto
termination
  by (relation "measure (\<lambda>(p, s). length s)") auto

declare remove_sub.simps [simp del]

text \<open>\<^verbatim>\<open>s.strip(cs)\<close>: characters of \<open>cs\<close> are dropped from both ends.\<close>

definition strip_chars :: "(char \<Rightarrow> bool) \<Rightarrow> string \<Rightarrow> string" where
  "strip_chars P s = rev (dropWhile P (rev (dropWhile P s)))"

subsection \<open>\<^verbatim>\<open>int(s, 16)\<close>\<close>

text \<open>
  The text is stripped of white space, may carry a sign and the prefix \<^verbatim>\<open>0x\<close> or
  \<^verbatim>\<open>0X\<close> (with one underscore allowed after it), and is then a non-empty run of
  hexadecimal digits in which single underscores may separate digits. White space is the
  code points 9 to 13 and 32, and above the ASCII range 133 and 160, which \<^verbatim>\<open>int\<close> turns
  into spaces before it parses; the separators 28 to 31 are white space for
  \<^verbatim>\<open>str.isspace\<close> but are left in place by \<^verbatim>\<open>int\<close>, which then rejects them. No other
  code point from 128 to 255 is a digit.
\<close>

definition py_isspace :: "char \<Rightarrow> bool" where
  "py_isspace c = ((of_char c :: nat) \<in> {9, 10, 11, 12, 13, 32, 133, 160})"

definition digit_val :: "char \<Rightarrow> nat option" where
  "digit_val c =
     (let n = (of_char c :: nat) in
      if 48 \<le> n \<and> n \<le> 57 then Some (n - 48)
      else if 97 \<le> n \<and> n \<le> 102 then Some (n - 87)
      else if 65 \<le> n \<and> n \<le> 70 then Some (n - 55)
      else None)"

fun digits16 :: "bool \<Rightarrow> nat \<Rightarrow> string \<Rightarrow> nat option" where
  "digits16 u acc [] = (if u then None else Some acc)"
| "digits16 u acc (c # cs) =
     (if c = CHR ''_'' then (if u then None else digits16 True acc cs)
      else case digit_val c of
             None \<Rightarrow> None
           | Some d \<Rightarrow> digits16 False (16 * acc + d) cs)"

definition py_int16 :: "string \<Rightarrow> int option" where
  "py_int16 s =
     (let t = strip_chars py_isspace s;
          neg = (t \<noteq> [] \<and> hd t = CHR ''-'');
          t1 = (if t \<noteq> [] \<and> (hd t = CHR ''+'' \<or> hd t = CHR ''-'') then tl t else t);
          t2 = (if take 2 t1 = ''0x'' \<or> take 2 t1 = ''0X''
                then (let r = drop 2 t1 in if r \<noteq> [] \<and> hd r = CHR ''_'' then tl r else r)
                else t1)
      in if t2 = [] \<or> hd t2 = CHR ''_'' then None
         else case digits16 False 0 t2 of
                None \<Rightarrow> None
              | Some n \<Rightarrow> Some (if neg then - int n else int n))"

subsection \<open>\<^verbatim>\<open>uuid.UUID(value)\<close> and \<^verbatim>\<open>str\<close> of a UUID\<close>

text \<open>
  \<^verbatim>\<open>uuid.UUID(value)\<close> binds \<open>value\<close> to the parameter \<^verbatim>\<open>hex\<close>. \<^verbatim>\<open>None\<close> leaves all
  five sources unset (\<^verbatim>\<open>TypeError\<close>); the \<^verbatim>\<open>replace\<close> of a \<^verbatim>\<open>datetime\<close> rejects the
  string arguments (\<^verbatim>\<open>TypeError\<close>); the other values that are not strings have no
  \<^verbatim>\<open>replace\<close> (\<^verbatim>\<open>AttributeError\<close>; an object is taken to have no method of that name). For a string: \<^verbatim>\<open>urn:\<close> and \<^verbatim>\<open>uuid:\<close> are removed, braces are
  stripped, hyphens are removed, the rest must have 32 characters and be accepted by
  \<^verbatim>\<open>int(hex, 16)\<close>, and the number must fit in 128 bits.
\<close>

definition uuid_UUID :: "pyval \<Rightarrow> error + pyval" where
  "uuid_UUID v =
     (case v of
        VNone \<Rightarrow> Inl TypeError
      | VDatetime t \<Rightarrow> Inl TypeError
      | VStr s \<Rightarrow>
          (let h1 = remove_sub ''uuid:'' (remove_sub ''urn:'' s);
               h2 = remove_sub ''-'' (strip_chars (\<lambda>c. c = CHR ''{'' \<or> c = CHR ''}'') h1)
           in if length h2 \<noteq> 32 then Inl ValueError
              else case py_int16 h2 of
                     None \<Rightarrow> Inl ValueError
                   | Some i \<Rightarrow>
                       if 0 \<le> i \<and> i < 2 ^ 128 then Inr (VUuid (nat i)) else Inl ValueError)
      | _ \<Rightarrow> Inl AttributeError)"

definition hex_char :: "nat \<Rightarrow> char" where
  "hex_char d = ''0123456789abcdef'' ! d"

fun to_hex :: "nat \<Rightarrow> string" where
  "to_hex n = (if n < 16 then [hex_char n] else to_hex (n div 16) @ [hex_char (n mod 16)])"

declare to_hex.simps [simp del]

text \<open>\<^verbatim>\<open>'%032x' % n\<close>: lower-case digits, padded with zeros to 32 characters.\<close>

definition format_032x :: "nat \<Rightarrow> string" where
  "format_032x n = (let d = to_hex n in replicate (32 - length d) CHR ''0'' @ d)"

definition uuid_str :: "nat \<Rightarrow> string" where
  "uuid_str n =
     (let hex = format_032x n in
      take 8 hex @ ''-'' @ take 4 (drop 8 hex) @ ''-'' @ take 4 (drop 12 hex) @ ''-'' @
      take 4 (drop 16 hex) @ ''-'' @ drop 20 hex)"

subsection \<open>\<^verbatim>\<open>str\<close>, attribute access, iteration, enumeration lookup\<close>

definition py_str :: "interp \<Rightarrow> pyval \<Rightarrow> string" where
  "py_str env v = (case v of VStr s \<Rightarrow> s | VUuid n \<Rightarrow> uuid_str n | _ \<Rightarrow> str_other env v)"

text \<open>\<^verbatim>\<open>getattr(v, k)\<close>, also written \<^verbatim>\<open>v.k\<close>.\<close>

definition py_getattr :: "interp \<Rightarrow> pyval \<Rightarrow> string \<Rightarrow> error + pyval" where
  "py_getattr env v k =
     (case v of
        VObj i c attrs \<Rightarrow> (case map_of attrs k of Some x \<Rightarrow> Inr x | None \<Rightarrow> Inl AttributeError)
      | VEnum e n x \<Rightarrow>
          (if k = ''value'' then Inr x
           else if k = ''name'' then Inr (VStr n)
           else case attr_other env v k of Some y \<Rightarrow> Inr y | None \<Rightarrow> Inl AttributeError)
      | _ \<Rightarrow> (case attr_other env v k of Some y \<Rightarrow> Inr y | None \<Rightarrow> Inl AttributeError))"

text \<open>\<^verbatim>\<open>for v in value\<close>: a list gives its elements, a string its characters; the other
  values modelled here are not iterable (an object is taken to define no \<^verbatim>\<open>__iter__\<close>).\<close>

definition py_iter :: "pyval \<Rightarrow> error + pyval list" where
  "py_iter v =
     (case v of
        VList xs \<Rightarrow> Inr xs
      | VStr s \<Rightarrow> Inr (map (\<lambda>c. VStr [c]) s)
      | _ \<Rightarrow> Inl TypeError)"

text \<open>A list comprehension \<^verbatim>\<open>[f(v) for v in xs]\<close>: left to right, the first exception
  ends it.\<close>

fun comprehension :: "('a \<Rightarrow> error + 'b) \<Rightarrow> 'a list \<Rightarrow> error + 'b list" where
  "comprehension f [] = Inr []"
| "comprehension f (x # xs) =
     (case f x of
        Inl e \<Rightarrow> Inl e
      | Inr y \<Rightarrow> (case comprehension f xs of Inl e \<Rightarrow> Inl e | Inr ys \<Rightarrow> Inr (y # ys)))"

text \<open>
  The members of an enumeration: the entries of the class body in order, without the
  aliases. When the class is created an entry becomes an alias when its value equals the
  value of a member created before it.
\<close>

fun dedup :: "pyval list \<Rightarrow> (string \<times> pyval) list \<Rightarrow> (string \<times> pyval) list" where
  "dedup seen [] = []"
| "dedup seen ((n, v) # es) =
     (if list_ex (\<lambda>s. py_eq s v) seen then dedup seen es
      else (n, v) # dedup (seen @ [v]) es)"

definition members :: "enum_class \<Rightarrow> (string \<times> pyval) list" where
  "members E = dedup [] (entries E)"

text \<open>
  \<^verbatim>\<open>E(value)\<close> for a plain enumeration \<open>E\<close> (no \<^verbatim>\<open>_missing_\<close> hook): a member of \<open>E\<close>
  is returned as it is; otherwise the first member whose value equals \<open>value\<close> is
  returned, and \<^verbatim>\<open>ValueError\<close> is raised when there is none.
\<close>

definition Enum_call :: "enum_class \<Rightarrow> pyval \<Rightarrow> error + pyval" where
  "Enum_call E v =
     (if isinstance v (TEnum E) then Inr v
      else case find (\<lambda>(n, x). py_eq x v) (members E) of
             Some (n, x) \<Rightarrow> Inr (VEnum (enum_name E) n x)
           | None \<Rightarrow> Inl ValueError)"

section \<open>The descriptors\<close>

subsection \<open>Objects\<close>

text \<open>
  The four private fields \<^verbatim>\<open>__primary\<close>, \<^verbatim>\<open>__non_null\<close>, \<^verbatim>\<open>__unique\<close> and
  \<^verbatim>\<open>__default\<close> that \<^verbatim>\<open>ModelTypeBase.__init__\<close> sets.
\<close>

record base =
  priv_primary :: bool
  priv_non_null :: bool
  priv_unique :: bool
  priv_default :: pyval

text \<open>
  A descriptor object. The classes that add no field of their own are \<open>Plain\<close>.
  \<open>EnumD\<close> has \<^verbatim>\<open>__enum\<close>, \<open>ForeignD\<close> has \<^verbatim>\<open>__model\<close> and \<^verbatim>\<open>__model_primary_key\<close>,
  \<open>ListD\<close> has \<^verbatim>\<open>__data_instance\<close> (\<open>None\<close> when the constructor never assigned it)
  and \<^verbatim>\<open>__data_type\<close>.
\<close>

datatype descr =
    Plain descr_class base
  | EnumD base enum_class
  | ForeignD base model_class string
  | ListD base "descr option" pytype

fun base_of :: "descr \<Rightarrow> base" where
  "base_of (Plain cls b) = b"
| "base_of (EnumD b E) = b"
| "base_of (ForeignD b M k) = b"
| "base_of (ListD b di dt) = b"

definition primary :: "descr \<Rightarrow> bool" where
  "primary d = priv_primary (base_of d)"

definition non_null :: "descr \<Rightarrow> bool" where
  "non_null d = priv_non_null (base_of d)"

definition unique :: "descr \<Rightarrow> bool" where
  "unique d = priv_unique (base_of d)"

definition default' :: "descr \<Rightarrow> pyval" where
  "default' d = priv_default (base_of d)"

text \<open>
  The property \<^verbatim>\<open>type\<close> read on an object whose own fields are not assigned yet, as
  happens inside \<^verbatim>\<open>ModelTypeBase.__init__\<close>. Eight classes return a fixed class;
  \<^verbatim>\<open>ForeignType\<close> and \<^verbatim>\<open>EnumType\<close> return a field, which at that moment does not
  exist.
\<close>

fun type_at_init :: "descr_class \<Rightarrow> error + pytype" where
  "type_at_init StringType = Inr TStr"
| "type_at_init IntType = Inr TInt"
| "type_at_init FloatType = Inr TFloat"
| "type_at_init UniqueIdType = Inr TUuid"
| "type_at_init ListType = Inr TList"
| "type_at_init ForeignType = Inl AttributeError"
| "type_at_init EnumType = Inl AttributeError"
| "type_at_init DatetimeType = Inr TDatetime"
| "type_at_init BoolType = Inr TBool"
| "type_at_init HashType = Inr THashed"

text \<open>The property \<^verbatim>\<open>type\<close> of a constructed descriptor.\<close>

fun type' :: "descr \<Rightarrow> error + pytype" where
  "type' (Plain cls b) = type_at_init cls"
| "type' (EnumD b E) = Inr (TEnum E)"
| "type' (ForeignD b M k) = Inr (TModel M)"
| "type' (ListD b di dt) = Inr TList"

subsection \<open>Construction\<close>

text \<open>
  \<^verbatim>\<open>ModelTypeBase.__init__\<close>. The first argument is what \<^verbatim>\<open>self.type\<close> evaluates to at
  the moment of the call; it is read only when \<open>default\<close> is not \<^verbatim>\<open>None\<close>.
\<close>

definition ModelTypeBase_init ::
  "(error + pytype) \<Rightarrow> bool \<Rightarrow> bool \<Rightarrow> bool \<Rightarrow> pyval \<Rightarrow> error + base" where
  "ModelTypeBase_init self_type primary_arg non_null_arg unique_arg default_arg =
     (if non_null_arg \<and> default_arg = VNone then Inl TypeError
      else
        let b = \<lparr> priv_primary = primary_arg,
                  priv_non_null = (if primary_arg then True else non_null_arg),
                  priv_unique = (if primary_arg then True else unique_arg),
                  priv_default = default_arg \<rparr>
        in if default_arg \<noteq> VNone then
             (case self_type of
                Inl e \<Rightarrow> Inl e
              | Inr t \<Rightarrow> if \<not> isinstance default_arg t then Inl TypeError else Inr b)
           else Inr b)"

text \<open>
  The keyword arguments every constructor takes. A flag that is left out is \<open>False\<close>,
  its parameter default; \<open>kw_default = None\<close> is a call that passes no \<^verbatim>\<open>default\<close>, and
  \<open>Some VNone\<close> one that passes \<^verbatim>\<open>default=None\<close>.
\<close>

record kwargs =
  kw_primary :: bool
  kw_non_null :: bool
  kw_unique :: bool
  kw_default :: "pyval option"

definition no_kwargs :: kwargs where
  "no_kwargs = \<lparr> kw_primary = False, kw_non_null = False, kw_unique = False, kw_default = None \<rparr>"

text \<open>The parameter \<^verbatim>\<open>default=None\<close> of every constructor but that of \<^verbatim>\<open>UniqueIdType\<close>.\<close>

definition default_or_None :: "kwargs \<Rightarrow> pyval" where
  "default_or_None kw = (case kw_default kw of None \<Rightarrow> VNone | Some v \<Rightarrow> v)"

text \<open>\<^verbatim>\<open>UniqueIdType.__init__\<close>: the parameter default is \<^verbatim>\<open>uuid.uuid4()\<close>, evaluated when
  the \<^verbatim>\<open>def\<close> ran.\<close>

definition UniqueIdType_init :: "interp \<Rightarrow> kwargs \<Rightarrow> error + descr" where
  "UniqueIdType_init env kw =
     map_sum id (Plain UniqueIdType)
       (ModelTypeBase_init (type_at_init UniqueIdType) (kw_primary kw) (kw_non_null kw) (kw_unique kw)
          (case kw_default kw of None \<Rightarrow> VUuid (uuid4_at_def env) | Some v \<Rightarrow> v))"

text \<open>
  \<^verbatim>\<open>EnumType.__init__\<close> calls the base initialiser before it assigns \<^verbatim>\<open>self.__enum\<close>, so
  reading \<^verbatim>\<open>self.type\<close> inside the base initialiser raises \<^verbatim>\<open>AttributeError\<close>.
\<close>

definition EnumType_init :: "enum_class \<Rightarrow> kwargs \<Rightarrow> error + descr" where
  "EnumType_init enum_type kw =
     (case ModelTypeBase_init (type_at_init EnumType) (kw_primary kw) (kw_non_null kw)
             (kw_unique kw) (default_or_None kw) of
        Inl e \<Rightarrow> Inl e
      | Inr b \<Rightarrow> Inr (EnumD b enum_type))"

text \<open>
  \<^verbatim>\<open>ForeignType.__init__\<close>: the model is given by name (resolved by the registry) or as a
  class. As in \<^verbatim>\<open>EnumType\<close>, \<^verbatim>\<open>self.__model\<close> is assigned after the base initialiser ran.
  The name of the primary key is a string.
\<close>

datatype model_arg = ModelName string | ModelClass model_class

definition ForeignType_init ::
  "interp \<Rightarrow> model_arg \<Rightarrow> string option \<Rightarrow> kwargs \<Rightarrow> error + descr" where
  "ForeignType_init env model model_primary_key kw =
     (case ModelTypeBase_init (type_at_init ForeignType) (kw_primary kw) (kw_non_null kw)
             (kw_unique kw) (default_or_None kw) of
        Inl e \<Rightarrow> Inl e
      | Inr b \<Rightarrow>
          (case (case model of ModelName s \<Rightarrow> get_loaded_model env s | ModelClass M \<Rightarrow> Inr M) of
             Inl e \<Rightarrow> Inl e
           | Inr M \<Rightarrow>
               (case (case model_primary_key of
                        None \<Rightarrow> get_primary_key_name M
                      | Some k \<Rightarrow> Inr k) of
                  Inl e \<Rightarrow> Inl e
                | Inr k \<Rightarrow> Inr (ForeignD b M k))))"

text \<open>
  The arguments of a constructor call, bound to the parameters of the class they are
  meant for: the keyword arguments alone, or with an enumeration, or with a model and an
  optional key name, or (for \<^verbatim>\<open>ListType\<close>) with \<open>dt\<close> and the arguments
  \<^verbatim>\<open>*args, **kwargs\<close> that \<^verbatim>\<open>ListType\<close> forwards to \<^verbatim>\<open>dt(*args, **kwargs)\<close>.
\<close>

datatype ctor_args =
    BaseArgs kwargs
  | EnumArgs enum_class kwargs
  | ForeignArgs model_arg "string option" kwargs
  | ListArgs pytype ctor_args kwargs

fun kwargs_of :: "ctor_args \<Rightarrow> kwargs" where
  "kwargs_of (BaseArgs kw) = kw"
| "kwargs_of (EnumArgs E kw) = kw"
| "kwargs_of (ForeignArgs m pk kw) = kw"
| "kwargs_of (ListArgs dt fwd kw) = kw"

text \<open>
  Calling a descriptor class. Arguments that do not fit the signature of the class are
  a \<^verbatim>\<open>TypeError\<close>, as in Python's call binding. The classes without an \<^verbatim>\<open>__init__\<close> of
  their own inherit that of \<^verbatim>\<open>ModelTypeBase\<close>. In \<^verbatim>\<open>ListType.__init__\<close> the three
  \<^verbatim>\<open>issubclass\<close> tests on \<open>dt\<close> are the first three cases, in the order of the source.
\<close>

fun construct :: "interp \<Rightarrow> descr_class \<Rightarrow> ctor_args \<Rightarrow> error + descr" where
  "construct env cls (BaseArgs kw) =
     (if cls = UniqueIdType then UniqueIdType_init env kw
      else if cls = ListType \<or> cls = ForeignType \<or> cls = EnumType then Inl TypeError
      else map_sum id (Plain cls)
             (ModelTypeBase_init (type_at_init cls) (kw_primary kw) (kw_non_null kw)
                (kw_unique kw) (default_or_None kw)))"
| "construct env cls (EnumArgs E kw) =
     (if cls = EnumType then EnumType_init E kw else Inl TypeError)"
| "construct env cls (ForeignArgs m pk kw) =
     (if cls = ForeignType then ForeignType_init env m pk kw else Inl TypeError)"
| "construct env cls (ListArgs dt fwd kw) =
     (if cls \<noteq> ListType then Inl TypeError
      else
        case ModelTypeBase_init (type_at_init ListType) (kw_primary kw) (kw_non_null kw)
               (kw_unique kw) (default_or_None kw) of
          Inl e \<Rightarrow> Inl e
        | Inr b \<Rightarrow>
            (case dt of
               TModel M \<Rightarrow>
                 (case ForeignType_init env (ModelClass M) None no_kwargs of
                    Inl e \<Rightarrow> Inl e
                  | Inr d \<Rightarrow> Inr (ListD b (Some d) dt))
             | TEnum E \<Rightarrow>
                 (case EnumType_init E no_kwargs of
                    Inl e \<Rightarrow> Inl e
                  | Inr d \<Rightarrow> Inr (ListD b (Some d) dt))
             | TDescr k \<Rightarrow>
                 (case construct env k fwd of
                    Inl e \<Rightarrow> Inl e
                  | Inr d \<Rightarrow> Inr (ListD b (Some d) dt))
             | _ \<Rightarrow> Inr (ListD b None dt)))"

subsection \<open>Conversions\<close>

text \<open>
  \<^verbatim>\<open>create_instance\<close> and \<^verbatim>\<open>to_model_data\<close>, with the override of each class.
  \<^verbatim>\<open>ListType\<close> converts the elements only when \<^verbatim>\<open>issubclass(self.__data_type, ModelTypeBase)\<close>.
\<close>

fun create_instance :: "interp \<Rightarrow> descr \<Rightarrow> pyval \<Rightarrow> error + pyval" where
  "create_instance env (Plain cls b) v =
     (if cls = UniqueIdType then uuid_UUID v
      else if cls = HashType then Hashed env v
      else Inr v)"
| "create_instance env (EnumD b E) v = Enum_call E v"
| "create_instance env (ForeignD b M k) v = load M [(k, v)]"
| "create_instance env (ListD b di dt) v =
     (if issubclass_ModelTypeBase dt then
        (case di of
           None \<Rightarrow> Inl AttributeError
         | Some e \<Rightarrow>
             (case py_iter v of
                Inl err \<Rightarrow> Inl err
              | Inr xs \<Rightarrow> map_sum id VList (comprehension (\<lambda>x. create_instance env e x) xs)))
      else Inr v)"

fun to_model_data :: "interp \<Rightarrow> descr \<Rightarrow> pyval \<Rightarrow> error + pyval" where
  "to_model_data env (Plain cls b) v =
     (if cls = UniqueIdType \<or> cls = HashType then Inr (VStr (py_str env v)) else Inr v)"
| "to_model_data env (EnumD b E) v = py_getattr env v ''value''"
| "to_model_data env (ForeignD b M k) v = py_getattr env v k"
| "to_model_data env (ListD b di dt) v =
     (if issubclass_ModelTypeBase dt then
        (case di of
           None \<Rightarrow> Inl AttributeError
         | Some e \<Rightarrow>
             (case py_iter v of
                Inl err \<Rightarrow> Inl err
              | Inr xs \<Rightarrow> map_sum id VList (comprehension (\<lambda>x. to_model_data env e x) xs)))
      else Inr v)"

section \<open>Notions used in the statements\<close>

text \<open>The arguments are those of the signature of the class.\<close>

fun fits :: "descr_class \<Rightarrow> ctor_args \<Rightarrow> bool" where
  "fits cls (BaseArgs kw) = (cls \<noteq> ListType \<and> cls \<noteq> ForeignType \<and> cls \<noteq> EnumType)"
| "fits cls (EnumArgs E kw) = (cls = EnumType)"
| "fits cls (ForeignArgs m pk kw) = (cls = ForeignType)"
| "fits cls (ListArgs dt fwd kw) = (cls = ListType)"

text \<open>The five scalar descriptor classes.\<close>

definition scalar_class :: "descr_class \<Rightarrow> bool" where
  "scalar_class cls =
     (cls = StringType \<or> cls = IntType \<or> cls = FloatType \<or> cls = BoolType \<or> cls = DatetimeType)"

text \<open>The member object of an entry, and whether a value equals the value of a member
  in the way a lookup tests it (\<open>py_eq\<close>).\<close>

definition member_obj :: "enum_class \<Rightarrow> string \<times> pyval \<Rightarrow> pyval" where
  "member_obj E m = VEnum (enum_name E) (fst m) (snd m)"

definition equals_member_value :: "enum_class \<Rightarrow> pyval \<Rightarrow> bool" where
  "equals_member_value E v = list_ex (\<lambda>(n, x). py_eq x v) (members E)"

text \<open>No value in the class body is an instance of the class being defined.\<close>

definition wf_enum :: "enum_class \<Rightarrow> bool" where
  "wf_enum E = list_all (\<lambda>(n, x). \<not> isinstance x (TEnum E)) (entries E)"

text \<open>
  The canonical text of a UUID: 36 characters, hyphens at positions 8, 13, 18 and 23,
  lower-case hexadecimal digits elsewhere.
\<close>

definition lower_hex :: "char \<Rightarrow> bool" where
  "lower_hex c = (c \<in> set ''0123456789abcdef'')"

definition canonical_uuid :: "string \<Rightarrow> bool" where
  "canonical_uuid s =
     (length s = 36 \<and>
      s ! 8 = CHR ''-'' \<and> s ! 13 = CHR ''-'' \<and> s ! 18 = CHR ''-'' \<and> s ! 23 = CHR ''-'' \<and>
      list_all lower_hex (take 8 s) \<and>
      list_all lower_hex (take 4 (drop 9 s)) \<and>
      list_all lower_hex (take 4 (drop 14 s)) \<and>
      list_all lower_hex (take 4 (drop 19 s)) \<and>
      list_all lower_hex (drop 24 s))"





text \<open>The value of a run of hexadecimal digits, and the \<open>k\<close> low digits of a number.\<close>

fun hexnat :: "nat \<Rightarrow> string \<Rightarrow> nat" where
  "hexnat acc [] = acc"
| "hexnat acc (c # cs) = hexnat (16 * acc + (case digit_val c of Some d \<Rightarrow> d | None \<Rightarrow> 0)) cs"

fun hexstr :: "nat \<Rightarrow> nat \<Rightarrow> string" where
  "hexstr 0 n = []"
| "hexstr (Suc k) n = hexstr k (n div 16) @ [hex_char (n mod 16)]"

section \<open>Sample objects\<close>

text \<open>
  The enumeration \<^verbatim>\<open>Color\<close> with \<^verbatim>\<open>RED = 1\<close>, \<^verbatim>\<open>GREEN = 2\<close>, \<^verbatim>\<open>BLUE = 3\<close>; a model
  \<^verbatim>\<open>Order\<close> with primary key \<^verbatim>\<open>id\<close> whose loader returns an instance that has the
  keyword arguments as attributes; an interpreter in which the identifier generated at
  definition time was 7, no model is registered, and \<^verbatim>\<open>Hashed(v)\<close> is an object whose
  text is \<^verbatim>\<open>hash\<close>.
\<close>

definition Color :: enum_class where
  "Color = \<lparr> enum_name = ''Color'',
             entries = [(''RED'', VInt 1), (''GREEN'', VInt 2), (''BLUE'', VInt 3)] \<rparr>"

definition RED :: pyval where
  "RED = VEnum ''Color'' ''RED'' (VInt 1)"

definition GREEN :: pyval where
  "GREEN = VEnum ''Color'' ''GREEN'' (VInt 2)"

definition Order :: model_class where
  "Order = \<lparr> model_name = ''Order'',
             get_primary_key_name = Inr ''id'',
             load = (\<lambda>kw. Inr (VObj 1 ''Order'' kw)) \<rparr>"

definition sample_interp :: interp where
  "sample_interp =
     \<lparr> uuid4_at_def = 7,
       get_loaded_model = (\<lambda>s. Inl (Raised ''KeyError'')),
       Hashed = (\<lambda>v. Inr (VObj 2 ''Hashed'' [(''raw'', v)])),
       str_other = (\<lambda>v. ''hash''),
       attr_other = (\<lambda>v k. None) \<rparr>"

text \<open>The fields of a descriptor constructed without keyword arguments.\<close>

definition plain :: base where
  "plain = \<lparr> priv_primary = False, priv_non_null = False, priv_unique = False,
             priv_default = VNone \<rparr>"


section \<open>The base initialiser\<close>

lemma map_sum_id_Inr: "map_sum id f x = Inr d \<longleftrightarrow> (\<exists>b. x = Inr b \<and> d = f b)"
  by (cases x) auto

lemma map_sum_id_Inl: "map_sum id f x = Inl e \<longleftrightarrow> x = Inl e"
  by (cases x) auto

lemma ModelTypeBase_init_Inr:
  assumes "ModelTypeBase_init ty p nn u dflt = Inr b"
  shows "b = \<lparr> priv_primary = p, priv_non_null = (p \<or> nn), priv_unique = (p \<or> u),
               priv_default = dflt \<rparr>"
  using assms
  by (auto simp: ModelTypeBase_init_def Let_def split: if_splits sum.splits)

lemma ModelTypeBase_init_None:
  "ModelTypeBase_init ty p nn u VNone =
     (if nn then Inl TypeError
      else Inr \<lparr> priv_primary = p, priv_non_null = p, priv_unique = (p \<or> u),
                 priv_default = VNone \<rparr>)"
  by (simp add: ModelTypeBase_init_def)

text \<open>
  Every constructor that returns has run the base initialiser, on the flags it was given
  and on the value bound to its parameter \<^verbatim>\<open>default\<close>.
\<close>

lemma construct_base:
  assumes "construct env cls ca = Inr d"
  shows "ModelTypeBase_init (type_at_init cls) (kw_primary (kwargs_of ca))
           (kw_non_null (kwargs_of ca)) (kw_unique (kwargs_of ca))
           (if cls = UniqueIdType \<and> kw_default (kwargs_of ca) = None
            then VUuid (uuid4_at_def env) else default_or_None (kwargs_of ca)) = Inr (base_of d)"
proof (cases ca)
  case (BaseArgs kw)
  with assms show ?thesis
    by (auto simp: UniqueIdType_init_def default_or_None_def map_sum_id_Inr
             split: if_splits option.splits)
next
  case (EnumArgs E kw)
  with assms show ?thesis
    by (auto simp: EnumType_init_def split: if_splits sum.splits)
next
  case (ForeignArgs m pk kw)
  with assms show ?thesis
    by (auto simp: ForeignType_init_def split: if_splits sum.splits)
next
  case (ListArgs dt fwd kw)
  with assms show ?thesis
    by (auto split: if_splits sum.splits pytype.splits)
qed

text \<open>
  A class whose \<^verbatim>\<open>type\<close> is a fixed class, called with a default that is not \<^verbatim>\<open>None\<close>:
  the call returns when the default is an instance of that class, whatever the flags are,
  and raises \<^verbatim>\<open>TypeError\<close> when it is not.
\<close>

lemma fixed_type_default_check:
  assumes "type_at_init cls = Inr t" and "cls \<noteq> ListType"
    and "kw_default kw = Some v" and "v \<noteq> VNone"
  shows "construct env cls (BaseArgs kw) =
           (if isinstance v t
            then Inr (Plain cls \<lparr> priv_primary = kw_primary kw,
                                  priv_non_null = (if kw_primary kw then True else kw_non_null kw),
                                  priv_unique = (if kw_primary kw then True else kw_unique kw),
                                  priv_default = v \<rparr>)
            else Inl TypeError)"
  using assms
  by (cases cls)
     (simp_all add: UniqueIdType_init_def ModelTypeBase_init_def default_or_None_def)

section \<open>Constraint flags\<close>

text \<open>
  Claim C3. For every descriptor class and every combination of constructor arguments,
  a descriptor constructed with \<^verbatim>\<open>primary=True\<close> has \<^verbatim>\<open>unique\<close> and \<^verbatim>\<open>non_null\<close>
  true, whatever was passed for \<^verbatim>\<open>unique\<close> and \<^verbatim>\<open>non_null\<close>. Such descriptors exist
  for every combination of the two flags: a class whose \<^verbatim>\<open>type\<close> is fixed, called with
  \<^verbatim>\<open>primary=True\<close> and a default of that type, returns one.
\<close>

theorem primary_forces_unique_and_non_null:
  "(construct env cls ca = Inr d \<and> kw_primary (kwargs_of ca)
      \<longrightarrow> primary d \<and> unique d \<and> non_null d) \<and>
   (type_at_init cls' = Inr t \<and> cls' \<noteq> ListType \<and> kw_primary kw \<and>
    kw_default kw = Some v \<and> v \<noteq> VNone \<and> isinstance v t
      \<longrightarrow> (\<exists>d'. construct env cls' (BaseArgs kw) = Inr d' \<and>
                 primary d' \<and> unique d' \<and> non_null d'))"
proof -
  have "primary d \<and> unique d \<and> non_null d"
    if c: "construct env cls ca = Inr d" and p: "kw_primary (kwargs_of ca)"
    using ModelTypeBase_init_Inr [OF construct_base [OF c]] p
    by (simp add: primary_def unique_def non_null_def)
  moreover have
    "\<exists>d'. construct env cls' (BaseArgs kw) = Inr d' \<and> primary d' \<and> unique d' \<and> non_null d'"
    if "type_at_init cls' = Inr t" "cls' \<noteq> ListType" "kw_default kw = Some v" "v \<noteq> VNone"
      and p: "kw_primary kw" and i: "isinstance v t"
    using fixed_type_default_check [OF that(1-4), of env] p i
    by (simp add: primary_def unique_def non_null_def)
  ultimately show ?thesis by blast
qed

theorem primary_forces_unique_and_non_null_witness:
  "(construct sample_interp IntType
      (BaseArgs \<lparr> kw_primary = True, kw_non_null = False, kw_unique = False, kw_default = None \<rparr>)
      = Inr (Plain IntType \<lparr> priv_primary = True, priv_non_null = True, priv_unique = True,
                             priv_default = VNone \<rparr>) \<and>
    primary (Plain IntType \<lparr> priv_primary = True, priv_non_null = True, priv_unique = True,
                             priv_default = VNone \<rparr>) \<and>
    unique (Plain IntType \<lparr> priv_primary = True, priv_non_null = True, priv_unique = True,
                            priv_default = VNone \<rparr>) \<and>
    non_null (Plain IntType \<lparr> priv_primary = True, priv_non_null = True, priv_unique = True,
                              priv_default = VNone \<rparr>)) \<and>
   (\<exists>d'. construct sample_interp StringType
      (BaseArgs \<lparr> kw_primary = True, kw_non_null = False, kw_unique = False,
                  kw_default = Some (VStr ''x'') \<rparr>) = Inr d' \<and>
      primary d' \<and> unique d' \<and> non_null d')"
proof -
  have c: "construct sample_interp IntType
     (BaseArgs \<lparr> kw_primary = True, kw_non_null = False, kw_unique = False, kw_default = None \<rparr>)
     = Inr (Plain IntType \<lparr> priv_primary = True, priv_non_null = True, priv_unique = True,
                            priv_default = VNone \<rparr>)"
    by (simp add: ModelTypeBase_init_def default_or_None_def)
  from primary_forces_unique_and_non_null [of sample_interp IntType
      "BaseArgs \<lparr> kw_primary = True, kw_non_null = False, kw_unique = False, kw_default = None \<rparr>"
      "Plain IntType \<lparr> priv_primary = True, priv_non_null = True, priv_unique = True,
                       priv_default = VNone \<rparr>"
      StringType TStr
      "\<lparr> kw_primary = True, kw_non_null = False, kw_unique = False,
         kw_default = Some (VStr ''x'') \<rparr>" "VStr ''x''"] c
  show ?thesis by (simp add: isinstance_def)
qed

text \<open>
  A constructor called with \<^verbatim>\<open>non_null=True\<close> and \<^verbatim>\<open>None\<close> bound to \<^verbatim>\<open>default\<close> raises
  \<^verbatim>\<open>TypeError\<close> in the base initialiser, before anything else is done.
\<close>

lemma construct_non_null_None:
  assumes "fits cls ca" and "kw_non_null (kwargs_of ca)"
    and "default_or_None (kwargs_of ca) = VNone"
    and "cls = UniqueIdType \<longrightarrow> kw_default (kwargs_of ca) \<noteq> None"
  shows "construct env cls ca = Inl TypeError"
proof (cases ca)
  case (BaseArgs kw)
  with assms show ?thesis
    by (auto simp: UniqueIdType_init_def default_or_None_def ModelTypeBase_init_def
             split: option.splits)
next
  case (EnumArgs E kw)
  with assms show ?thesis
    by (simp add: EnumType_init_def ModelTypeBase_init_def)
next
  case (ForeignArgs m pk kw)
  with assms show ?thesis
    by (simp add: ForeignType_init_def ModelTypeBase_init_def)
next
  case (ListArgs dt fwd kw)
  with assms show ?thesis
    by (simp add: ModelTypeBase_init_def)
qed

text \<open>\<^verbatim>\<open>UniqueIdType\<close> called without \<^verbatim>\<open>default\<close> always returns: the identifier generated
  at definition time is not \<^verbatim>\<open>None\<close> and is a \<^verbatim>\<open>uuid.UUID\<close>.\<close>

lemma UniqueIdType_no_default:
  assumes "kw_default kw = None"
  shows "construct env UniqueIdType (BaseArgs kw) =
           Inr (Plain UniqueIdType
             \<lparr> priv_primary = kw_primary kw,
               priv_non_null = (if kw_primary kw then True else kw_non_null kw),
               priv_unique = (if kw_primary kw then True else kw_unique kw),
               priv_default = VUuid (uuid4_at_def env) \<rparr>)"
  using assms
  by (simp add: UniqueIdType_init_def ModelTypeBase_init_def isinstance_def)

text \<open>
  Claim C4, as amended. For every descriptor class, a constructor call with
  \<^verbatim>\<open>non_null=True\<close> in which \<^verbatim>\<open>None\<close> is bound to \<^verbatim>\<open>default\<close> raises \<^verbatim>\<open>TypeError\<close>
  (the configuration error): that is a call without \<^verbatim>\<open>default\<close> or with \<^verbatim>\<open>default=None\<close>
  for every class but \<^verbatim>\<open>UniqueIdType\<close>, and a call with \<^verbatim>\<open>default=None\<close> for
  \<^verbatim>\<open>UniqueIdType\<close>. A call of \<^verbatim>\<open>UniqueIdType\<close> with \<^verbatim>\<open>non_null=True\<close> and no \<^verbatim>\<open>default\<close>
  returns a descriptor whose default is the identifier generated at definition time.
\<close>

theorem non_null_without_default:
  "(fits cls ca \<and> kw_non_null (kwargs_of ca) \<and> default_or_None (kwargs_of ca) = VNone \<and>
     (cls = UniqueIdType \<longrightarrow> kw_default (kwargs_of ca) \<noteq> None)
       \<longrightarrow> construct env cls ca = Inl TypeError) \<and>
   (kw_non_null kw \<and> kw_default kw = None
       \<longrightarrow> (\<exists>d. construct env UniqueIdType (BaseArgs kw) = Inr d \<and> non_null d \<and>
                 default' d = VUuid (uuid4_at_def env)))"
  using construct_non_null_None [of cls ca env] UniqueIdType_no_default [of kw env]
  by (auto simp: non_null_def default'_def)

theorem non_null_without_default_witness:
  "construct sample_interp StringType
     (BaseArgs \<lparr> kw_primary = False, kw_non_null = True, kw_unique = False, kw_default = None \<rparr>)
     = Inl TypeError \<and>
   construct sample_interp EnumType
     (EnumArgs Color \<lparr> kw_primary = True, kw_non_null = True, kw_unique = False, kw_default = None \<rparr>)
     = Inl TypeError \<and>
   construct sample_interp UniqueIdType
     (BaseArgs \<lparr> kw_primary = False, kw_non_null = True, kw_unique = False, kw_default = Some VNone \<rparr>)
     = Inl TypeError \<and>
   (\<exists>d. construct sample_interp UniqueIdType
     (BaseArgs \<lparr> kw_primary = False, kw_non_null = True, kw_unique = False, kw_default = None \<rparr>)
     = Inr d \<and> non_null d \<and> default' d = VUuid 7)"
  using
    non_null_without_default [of StringType
      "BaseArgs \<lparr> kw_primary = False, kw_non_null = True, kw_unique = False, kw_default = None \<rparr>"
      sample_interp
      "\<lparr> kw_primary = False, kw_non_null = True, kw_unique = False, kw_default = None \<rparr>"]
    non_null_without_default [of EnumType
      "EnumArgs Color \<lparr> kw_primary = True, kw_non_null = True, kw_unique = False, kw_default = None \<rparr>"
      sample_interp
      "\<lparr> kw_primary = False, kw_non_null = True, kw_unique = False, kw_default = None \<rparr>"]
    non_null_without_default [of UniqueIdType
      "BaseArgs \<lparr> kw_primary = False, kw_non_null = True, kw_unique = False, kw_default = Some VNone \<rparr>"
      sample_interp
      "\<lparr> kw_primary = False, kw_non_null = True, kw_unique = False, kw_default = None \<rparr>"]
  by (simp add: default_or_None_def sample_interp_def)

text \<open>
  The claim as written (every class, no \<^verbatim>\<open>default\<close> supplied) fails for
  \<^verbatim>\<open>UniqueIdType(non_null=True)\<close>, which returns a descriptor.
\<close>

theorem non_null_without_default_counterexample:
  "fits UniqueIdType
     (BaseArgs \<lparr> kw_primary = False, kw_non_null = True, kw_unique = False, kw_default = None \<rparr>) \<and>
   kw_non_null (kwargs_of
     (BaseArgs \<lparr> kw_primary = False, kw_non_null = True, kw_unique = False, kw_default = None \<rparr>)) \<and>
   kw_default (kwargs_of
     (BaseArgs \<lparr> kw_primary = False, kw_non_null = True, kw_unique = False, kw_default = None \<rparr>))
     = None \<and>
   construct sample_interp UniqueIdType
     (BaseArgs \<lparr> kw_primary = False, kw_non_null = True, kw_unique = False, kw_default = None \<rparr>)
     = Inr (Plain UniqueIdType \<lparr> priv_primary = False, priv_non_null = True, priv_unique = False,
                                 priv_default = VUuid 7 \<rparr>)"
  by (simp add: UniqueIdType_init_def ModelTypeBase_init_def isinstance_def sample_interp_def)


text \<open>\<^verbatim>\<open>ForeignType\<close> called with \<^verbatim>\<open>primary=True\<close>, \<^verbatim>\<open>non_null=False\<close> and no default
  returns whenever the model and the name of its key resolve.\<close>

lemma ForeignType_primary_None:
  assumes "kw_primary kw" and "\<not> kw_non_null kw" and "default_or_None kw = VNone"
    and "(case m of ModelName s \<Rightarrow> get_loaded_model env s | ModelClass M' \<Rightarrow> Inr M') = Inr M"
    and "(case pk of None \<Rightarrow> get_primary_key_name M | Some k' \<Rightarrow> Inr k') = Inr k"
  shows "construct env ForeignType (ForeignArgs m pk kw) =
           Inr (ForeignD \<lparr> priv_primary = True, priv_non_null = True, priv_unique = True,
                          priv_default = VNone \<rparr> M k)"
  using assms by (simp add: ForeignType_init_def ModelTypeBase_init_def)





section \<open>Defaults\<close>

text \<open>
  Claim C9. Two \<^verbatim>\<open>UniqueIdType\<close> descriptors constructed without \<^verbatim>\<open>default\<close> have the
  same default: the identifier generated once, when the class was defined.
\<close>

theorem unique_id_default_shared:
  assumes "kw_default kw1 = None" and "kw_default kw2 = None"
  shows "\<exists>d1 d2. construct env UniqueIdType (BaseArgs kw1) = Inr d1 \<and>
                 construct env UniqueIdType (BaseArgs kw2) = Inr d2 \<and>
                 default' d1 = default' d2 \<and> default' d1 = VUuid (uuid4_at_def env)"
  using UniqueIdType_no_default [OF assms(1), of env] UniqueIdType_no_default [OF assms(2), of env]
  by (simp add: default'_def)

theorem unique_id_default_shared_witness:
  "\<exists>d1 d2.
     construct sample_interp UniqueIdType
       (BaseArgs \<lparr> kw_primary = True, kw_non_null = False, kw_unique = False, kw_default = None \<rparr>)
       = Inr d1 \<and>
     construct sample_interp UniqueIdType
       (BaseArgs \<lparr> kw_primary = False, kw_non_null = True, kw_unique = False, kw_default = None \<rparr>)
       = Inr d2 \<and>
     default' d1 = default' d2 \<and> default' d1 = VUuid 7"
  using unique_id_default_shared [of
      "\<lparr> kw_primary = True, kw_non_null = False, kw_unique = False, kw_default = None \<rparr>"
      "\<lparr> kw_primary = False, kw_non_null = True, kw_unique = False, kw_default = None \<rparr>"
      sample_interp]
  by (simp add: sample_interp_def)

text \<open>
  The type check of a default. For a class whose \<^verbatim>\<open>type\<close> is fixed, a default of that
  type is accepted and any other is a \<^verbatim>\<open>TypeError\<close>. \<^verbatim>\<open>EnumType\<close> and \<^verbatim>\<open>ForeignType\<close>
  raise \<^verbatim>\<open>AttributeError\<close> for every default that is not \<^verbatim>\<open>None\<close>, of the right type or
  not: the check reads \<^verbatim>\<open>self.type\<close> before the field behind it is assigned.
\<close>

lemma EnumType_default_not_None:
  assumes "kw_default kw = Some v" and "v \<noteq> VNone"
  shows "construct env EnumType (EnumArgs E kw) = Inl AttributeError"
  using assms by (simp add: EnumType_init_def ModelTypeBase_init_def default_or_None_def)

lemma ForeignType_default_not_None:
  assumes "kw_default kw = Some v" and "v \<noteq> VNone"
  shows "construct env ForeignType (ForeignArgs m pk kw) = Inl AttributeError"
  using assms by (simp add: ForeignType_init_def ModelTypeBase_init_def default_or_None_def)

text \<open>
  Claim C2 at \<^verbatim>\<open>EnumType(Color, default=Color.RED)\<close> and at
  \<^verbatim>\<open>EnumType(Color, default=1)\<close>. The claim says that the first call succeeds and the
  second fails with the configuration error; both raise \<^verbatim>\<open>AttributeError\<close>.
\<close>

theorem enum_default_raises_AttributeError:
  "isinstance RED (TEnum Color) \<and>
   construct sample_interp EnumType
     (EnumArgs Color \<lparr> kw_primary = False, kw_non_null = False, kw_unique = False,
                       kw_default = Some RED \<rparr>) = Inl AttributeError \<and>
   \<not> isinstance (VInt 1) (TEnum Color) \<and>
   construct sample_interp EnumType
     (EnumArgs Color \<lparr> kw_primary = False, kw_non_null = False, kw_unique = False,
                       kw_default = Some (VInt 1) \<rparr>) = Inl AttributeError"
  by (simp add: EnumType_init_def ModelTypeBase_init_def default_or_None_def isinstance_def
                RED_def Color_def)

section \<open>Scalar descriptors\<close>

text \<open>
  Claim C8. For each of \<^verbatim>\<open>StringType\<close>, \<^verbatim>\<open>IntType\<close>, \<^verbatim>\<open>FloatType\<close>, \<^verbatim>\<open>BoolType\<close> and
  \<^verbatim>\<open>DatetimeType\<close>: \<^verbatim>\<open>type\<close> is one fixed class, the constructor is the base
  initialiser and fails exactly when that fails, and \<^verbatim>\<open>create_instance\<close> and
  \<^verbatim>\<open>to_model_data\<close> return their argument, whatever it is.
\<close>

theorem scalar_descriptors_identity:
  assumes "scalar_class cls"
  shows "(\<exists>t. type_at_init cls = Inr t) \<and>
         construct env cls (BaseArgs kw) =
           (case ModelTypeBase_init (type_at_init cls) (kw_primary kw) (kw_non_null kw)
                   (kw_unique kw) (default_or_None kw) of
              Inl e \<Rightarrow> Inl e
            | Inr b \<Rightarrow> Inr (Plain cls b)) \<and>
         create_instance env (Plain cls b) x = Inr x \<and>
         to_model_data env (Plain cls b) x = Inr x"
  using assms
  by (auto simp: scalar_class_def split: sum.splits)

theorem scalar_descriptors_identity_witness:
  "scalar_class DatetimeType \<and>
   type_at_init DatetimeType = Inr TDatetime \<and>
   construct sample_interp DatetimeType
     (BaseArgs \<lparr> kw_primary = False, kw_non_null = True, kw_unique = False,
                 kw_default = Some (VDatetime 0) \<rparr>)
     = Inr (Plain DatetimeType \<lparr> priv_primary = False, priv_non_null = True, priv_unique = False,
                                 priv_default = VDatetime 0 \<rparr>) \<and>
   create_instance sample_interp
     (Plain DatetimeType \<lparr> priv_primary = False, priv_non_null = True, priv_unique = False,
                           priv_default = VDatetime 0 \<rparr>) (VDatetime 5) = Inr (VDatetime 5) \<and>
   to_model_data sample_interp
     (Plain DatetimeType \<lparr> priv_primary = False, priv_non_null = True, priv_unique = False,
                           priv_default = VDatetime 0 \<rparr>) (VDatetime 5) = Inr (VDatetime 5)"
proof -
  have s: "scalar_class DatetimeType" by (simp add: scalar_class_def)
  from scalar_descriptors_identity [OF s, of sample_interp
      "\<lparr> kw_primary = False, kw_non_null = True, kw_unique = False,
         kw_default = Some (VDatetime 0) \<rparr>"
      "\<lparr> priv_primary = False, priv_non_null = True, priv_unique = False,
         priv_default = VDatetime 0 \<rparr>" "VDatetime 5"] s
  show ?thesis
    by (simp add: ModelTypeBase_init_def default_or_None_def isinstance_def)
qed

section \<open>Lists\<close>

text \<open>A comprehension that returns has converted every element, in order.\<close>

lemma comprehension_length:
  "comprehension f xs = Inr ys \<Longrightarrow> length ys = length xs"
  by (induction xs arbitrary: ys) (auto split: sum.splits)

lemma comprehension_nth:
  "comprehension f xs = Inr ys \<Longrightarrow> i < length xs \<Longrightarrow> f (xs ! i) = Inr (ys ! i)"
proof (induction xs arbitrary: ys i)
  case Nil
  then show ?case by simp
next
  case (Cons x xs)
  then show ?case by (cases i) (auto split: sum.splits)
qed

lemma comprehension_Inl:
  "comprehension f xs = Inl e \<Longrightarrow> \<exists>x \<in> set xs. f x = Inl e"
  by (induction xs) (auto split: sum.splits)

text \<open>
  What \<^verbatim>\<open>ListType\<close> does: when \<open>dt\<close> is a descriptor class, both conversions apply the
  element descriptor to every element of a list; for every other \<open>dt\<close> they return
  their argument, also when the constructor has built an element descriptor.
\<close>

lemma ListType_converting:
  assumes "construct env ListType (ListArgs (TDescr k) fwd kw) = Inr d"
  shows "\<exists>b e. d = ListD b (Some e) (TDescr k) \<and> construct env k fwd = Inr e \<and>
           (\<forall>xs. create_instance env d (VList xs) =
                   map_sum id VList (comprehension (\<lambda>x. create_instance env e x) xs)) \<and>
           (\<forall>xs. to_model_data env d (VList xs) =
                   map_sum id VList (comprehension (\<lambda>x. to_model_data env e x) xs))"
  using assms
  by (auto simp: issubclass_ModelTypeBase_def py_iter_def split: sum.splits)

lemma ListType_not_converting:
  assumes "construct env ListType (ListArgs dt fwd kw) = Inr d"
    and "\<not> issubclass_ModelTypeBase dt"
  shows "create_instance env d v = Inr v \<and> to_model_data env d v = Inr v"
  using assms
  by (auto simp: issubclass_ModelTypeBase_def split: sum.splits pytype.splits)

text \<open>
  Claim C1 at \<^verbatim>\<open>ListType(Color)\<close>. The constructor builds the element descriptor
  \<^verbatim>\<open>EnumType(Color)\<close>, whose \<^verbatim>\<open>create_instance\<close> maps 1 to \<^verbatim>\<open>Color.RED\<close> and 2 to
  \<^verbatim>\<open>Color.GREEN\<close>; the claim says that \<^verbatim>\<open>create_instance([1, 2])\<close> is
  \<^verbatim>\<open>[Color.RED, Color.GREEN]\<close> and that \<^verbatim>\<open>to_model_data\<close> is the inverse. The code
  returns \<^verbatim>\<open>[1, 2]\<close> and \<^verbatim>\<open>[Color.RED, Color.GREEN]\<close> unchanged.
\<close>

theorem list_of_enum_not_converted:
  "construct sample_interp ListType (ListArgs (TEnum Color) (BaseArgs no_kwargs) no_kwargs)
     = Inr (ListD \<lparr> priv_primary = False, priv_non_null = False, priv_unique = False,
                     priv_default = VNone \<rparr>
                 (Some (EnumD \<lparr> priv_primary = False, priv_non_null = False,
                                priv_unique = False, priv_default = VNone \<rparr> Color))
                 (TEnum Color)) \<and>
   create_instance sample_interp
     (EnumD \<lparr> priv_primary = False, priv_non_null = False, priv_unique = False,
              priv_default = VNone \<rparr> Color) (VInt 1) = Inr RED \<and>
   create_instance sample_interp
     (EnumD \<lparr> priv_primary = False, priv_non_null = False, priv_unique = False,
              priv_default = VNone \<rparr> Color) (VInt 2) = Inr GREEN \<and>
   create_instance sample_interp
     (ListD \<lparr> priv_primary = False, priv_non_null = False, priv_unique = False,
              priv_default = VNone \<rparr>
            (Some (EnumD \<lparr> priv_primary = False, priv_non_null = False,
                           priv_unique = False, priv_default = VNone \<rparr> Color))
            (TEnum Color)) (VList [VInt 1, VInt 2]) = Inr (VList [VInt 1, VInt 2]) \<and>
   to_model_data sample_interp
     (ListD \<lparr> priv_primary = False, priv_non_null = False, priv_unique = False,
              priv_default = VNone \<rparr>
            (Some (EnumD \<lparr> priv_primary = False, priv_non_null = False,
                           priv_unique = False, priv_default = VNone \<rparr> Color))
            (TEnum Color)) (VList [RED, GREEN]) = Inr (VList [RED, GREEN])"
  by (simp add: no_kwargs_def EnumType_init_def ModelTypeBase_init_def default_or_None_def
                issubclass_ModelTypeBase_def Enum_call_def members_def Color_def RED_def
                GREEN_def isinstance_def)

section \<open>Foreign references\<close>

text \<open>
  Claim C7. For a \<^verbatim>\<open>ForeignType\<close> on model \<open>M\<close> with primary-key name \<open>k\<close> (given, or
  asked of \<open>M\<close>): \<^verbatim>\<open>create_instance(v)\<close> is the call \<^verbatim>\<open>M.load(k=v)\<close>, result or
  exception; \<^verbatim>\<open>to_model_data(instance)\<close> is \<^verbatim>\<open>getattr(instance, k)\<close>, which for an object
  is the attribute \<open>k\<close>, and \<^verbatim>\<open>AttributeError\<close> when the object has none.
\<close>

theorem foreign_reference_conversions:
  assumes "construct env ForeignType (ForeignArgs m pk kw) = Inr d"
  shows "\<exists>M k.
           (case m of ModelName s \<Rightarrow> get_loaded_model env s | ModelClass M' \<Rightarrow> Inr M') = Inr M \<and>
           (case pk of None \<Rightarrow> get_primary_key_name M | Some k' \<Rightarrow> Inr k') = Inr k \<and>
           type' d = Inr (TModel M) \<and>
           (\<forall>v. create_instance env d v = load M [(k, v)]) \<and>
           (\<forall>inst. to_model_data env d inst = py_getattr env inst k) \<and>
           (\<forall>i c attrs. to_model_data env d (VObj i c attrs) =
                (case map_of attrs k of Some x \<Rightarrow> Inr x | None \<Rightarrow> Inl AttributeError))"
  using assms
  by (auto simp: ForeignType_init_def py_getattr_def split: sum.splits)

theorem foreign_reference_conversions_witness:
  "construct sample_interp ForeignType (ForeignArgs (ModelClass Order) None no_kwargs)
     = Inr (ForeignD \<lparr> priv_primary = False, priv_non_null = False, priv_unique = False,
                        priv_default = VNone \<rparr> Order ''id'') \<and>
   create_instance sample_interp
     (ForeignD \<lparr> priv_primary = False, priv_non_null = False, priv_unique = False,
                 priv_default = VNone \<rparr> Order ''id'') (VInt 7)
     = load Order [(''id'', VInt 7)] \<and>
   to_model_data sample_interp
     (ForeignD \<lparr> priv_primary = False, priv_non_null = False, priv_unique = False,
                 priv_default = VNone \<rparr> Order ''id'') (VObj 1 ''Order'' [(''id'', VInt 7)])
     = Inr (VInt 7) \<and>
   to_model_data sample_interp
     (ForeignD \<lparr> priv_primary = False, priv_non_null = False, priv_unique = False,
                 priv_default = VNone \<rparr> Order ''id'') (VObj 1 ''Order'' [(''name'', VStr ''x'')])
     = Inl AttributeError"
proof -
  have c: "construct sample_interp ForeignType (ForeignArgs (ModelClass Order) None no_kwargs)
     = Inr (ForeignD \<lparr> priv_primary = False, priv_non_null = False, priv_unique = False,
                        priv_default = VNone \<rparr> Order ''id'')"
    by (simp add: ForeignType_init_def ModelTypeBase_init_def default_or_None_def no_kwargs_def
                  Order_def)
  from foreign_reference_conversions [OF c] c show ?thesis
    by (simp add: Order_def)
qed

section \<open>Enumerations\<close>

lemma py_eq_refl: "py_eq x x"
  by (induction x) (auto simp: list_all2_same)

text \<open>Looking up the value of a member finds that member: no member before it has an
  equal value.\<close>

lemma dedup_subset: "set (dedup seen es) \<subseteq> set es"
  by (induction seen es rule: dedup.induct) auto

lemma dedup_find:
  assumes "(n, v) \<in> set (dedup seen es)"
  shows "\<not> list_ex (\<lambda>s. py_eq s v) seen \<and>
         find (\<lambda>(n', x). py_eq x v) (dedup seen es) = Some (n, v)"
  using assms
proof (induction seen es rule: dedup.induct)
  case (1 seen)
  then show ?case by simp
next
  case (2 seen n0 v0 es)
  show ?case
  proof (cases "list_ex (\<lambda>s. py_eq s v0) seen")
    case True
    with 2 show ?thesis by simp
  next
    case False
    show ?thesis
    proof (cases "(n, v) = (n0, v0)")
      case True
      with False show ?thesis by (simp add: py_eq_refl)
    next
      case neq: False
      with False "2.prems" have "(n, v) \<in> set (dedup (seen @ [v0]) es)" by auto
      from "2.IH"(2) [OF False this] False show ?thesis
        by (auto simp: list_ex_iff)
    qed
  qed
qed

lemma member_lookup:
  assumes "m \<in> set (members E)"
  shows "find (\<lambda>(n', x). py_eq x (snd m)) (members E) = Some m"
  using dedup_find [of "fst m" "snd m" "[]" "entries E"] assms
  by (simp add: members_def)

lemma member_not_instance:
  assumes "wf_enum E" and "m \<in> set (members E)"
  shows "\<not> isinstance (snd m) (TEnum E)"
proof -
  from assms(2) have "m \<in> set (entries E)"
    using dedup_subset [of "[]" "entries E"] by (auto simp: members_def)
  with assms(1) show ?thesis
    by (auto simp: wf_enum_def list_all_iff)
qed

text \<open>
  Claim C6, as amended. For an \<^verbatim>\<open>EnumType\<close> on enumeration \<open>E\<close>: for every member \<open>m\<close>,
  \<^verbatim>\<open>create_instance(m.value)\<close> returns \<open>m\<close> and \<^verbatim>\<open>to_model_data(m)\<close> returns
  \<^verbatim>\<open>m.value\<close>; for every raw value that is not itself a member of \<open>E\<close> and equals the
  value of no member, \<^verbatim>\<open>create_instance\<close> raises \<^verbatim>\<open>ValueError\<close> (the conversion error);
  a raw value that is a member of \<open>E\<close> is returned as it is.
\<close>

theorem enum_conversions:
  assumes "wf_enum E"
  shows "(\<forall>m \<in> set (members E).
            create_instance env (EnumD b E) (snd m) = Inr (member_obj E m) \<and>
            to_model_data env (EnumD b E) (member_obj E m) = Inr (snd m)) \<and>
         (\<forall>raw. \<not> isinstance raw (TEnum E) \<and> \<not> equals_member_value E raw
            \<longrightarrow> create_instance env (EnumD b E) raw = Inl ValueError) \<and>
         (\<forall>raw. isinstance raw (TEnum E) \<longrightarrow> create_instance env (EnumD b E) raw = Inr raw)"
proof (intro conjI ballI allI impI)
  fix m assume m: "m \<in> set (members E)"
  from member_not_instance [OF assms m] member_lookup [OF m]
  show "create_instance env (EnumD b E) (snd m) = Inr (member_obj E m)"
    by (cases m) (simp add: Enum_call_def member_obj_def)
  show "to_model_data env (EnumD b E) (member_obj E m) = Inr (snd m)"
    by (simp add: member_obj_def py_getattr_def)
next
  fix raw assume "\<not> isinstance raw (TEnum E) \<and> \<not> equals_member_value E raw"
  then have "find (\<lambda>(n, x). py_eq x raw) (members E) = None" and "\<not> isinstance raw (TEnum E)"
    by (auto simp: equals_member_value_def list_ex_iff find_None_iff)
  then show "create_instance env (EnumD b E) raw = Inl ValueError"
    by (simp add: Enum_call_def)
next
  fix raw assume "isinstance raw (TEnum E)"
  then show "create_instance env (EnumD b E) raw = Inr raw"
    by (simp add: Enum_call_def)
qed

lemma members_Color: "members Color = [(''RED'', VInt 1), (''GREEN'', VInt 2), (''BLUE'', VInt 3)]"
  by (simp add: members_def Color_def)

lemma enum_name_Color: "enum_name Color = ''Color''"
  by (simp add: Color_def)

theorem enum_conversions_witness:
  "wf_enum Color \<and>
   create_instance sample_interp
     (EnumD \<lparr> priv_primary = False, priv_non_null = False, priv_unique = False,
              priv_default = VNone \<rparr> Color) (VInt 1) = Inr RED \<and>
   to_model_data sample_interp
     (EnumD \<lparr> priv_primary = False, priv_non_null = False, priv_unique = False,
              priv_default = VNone \<rparr> Color) GREEN = Inr (VInt 2) \<and>
   create_instance sample_interp
     (EnumD \<lparr> priv_primary = False, priv_non_null = False, priv_unique = False,
              priv_default = VNone \<rparr> Color) (VInt 99) = Inl ValueError"
proof -
  have w: "wf_enum Color"
    by (simp add: wf_enum_def Color_def isinstance_def)
  note e = enum_name_Color
  from enum_conversions [OF w, of sample_interp
      "\<lparr> priv_primary = False, priv_non_null = False, priv_unique = False,
         priv_default = VNone \<rparr>"] w
  show ?thesis
    apply (simp add: members_Color member_obj_def e RED_def GREEN_def del: create_instance.simps to_model_data.simps)
    apply (simp add: equals_member_value_def members_Color isinstance_def e del: create_instance.simps to_model_data.simps)
    done
qed

text \<open>
  The claim as written (every raw value that equals no member's value is rejected) fails
  for \<^verbatim>\<open>create_instance(Color.RED)\<close>: the member equals none of 1, 2, 3 and is returned.
\<close>

theorem enum_conversions_counterexample:
  "\<not> equals_member_value Color RED \<and>
   create_instance sample_interp
     (EnumD \<lparr> priv_primary = False, priv_non_null = False, priv_unique = False,
              priv_default = VNone \<rparr> Color) RED = Inr RED"
  by (simp add: equals_member_value_def members_Color RED_def Enum_call_def isinstance_def
                enum_name_Color)

section \<open>Unique identifiers\<close>

text \<open>A lower-case hexadecimal digit is a digit of \<^verbatim>\<open>int(s, 16)\<close>, is printed back as
  itself, and is none of the characters the parser treats specially.\<close>

lemma lower_hex_digit:
  assumes "lower_hex c"
  shows "\<exists>d<16. digit_val c = Some d \<and> hex_char d = c"
  using assms unfolding lower_hex_def
  by (auto simp: digit_val_def hex_char_def)

lemma lower_hex_plain:
  assumes "lower_hex c"
  shows "c \<noteq> CHR ''-''" and "c \<noteq> CHR '':''" and "c \<noteq> CHR ''{''" and "c \<noteq> CHR ''}''"
    and "c \<noteq> CHR ''+''" and "c \<noteq> CHR ''_''" and "c \<noteq> CHR ''x''" and "c \<noteq> CHR ''X''"
    and "\<not> py_isspace c"
  using assms unfolding lower_hex_def
  by (auto simp: py_isspace_def)

text \<open>Removing a text that cannot occur changes nothing; removing a single character
  is a filter; stripping leaves a text whose ends are not stripped characters.\<close>

lemma remove_sub_Nil: "remove_sub p [] = []"
  by (simp add: remove_sub.simps)

lemma remove_sub_absent:
  assumes "c \<in> set p" and "c \<notin> set s"
  shows "remove_sub p s = s"
  using assms(2)
proof (induction s)
  case Nil
  then show ?case by (simp add: remove_sub_Nil)
next
  case (Cons a s)
  have "take (length p) (a # s) \<noteq> p"
  proof
    assume "take (length p) (a # s) = p"
    then have "set p \<subseteq> set (a # s)" by (metis set_take_subset)
    with assms(1) Cons.prems show False by auto
  qed
  with Cons show ?case by (simp add: remove_sub.simps [of p "a # s"])
qed

lemma remove_sub_single: "remove_sub [c] s = filter (\<lambda>x. x \<noteq> c) s"
proof (induction s)
  case Nil
  then show ?case by (simp add: remove_sub_Nil)
next
  case (Cons a s)
  then show ?case by (simp add: remove_sub.simps [of "[c]" "a # s"])
qed

lemma strip_chars_id:
  assumes "s \<noteq> []" and "\<not> P (hd s)" and "\<not> P (last s)"
  shows "strip_chars P s = s"
proof -
  from assms(1,2) have "dropWhile P s = s" by (cases s) auto
  moreover from assms(1,3) have "dropWhile P (rev s) = rev s"
    by (cases "rev s") (auto simp: hd_rev [symmetric])
  ultimately show ?thesis by (simp add: strip_chars_def)
qed

text \<open>On a run of lower-case digits the parser computes \<open>hexnat\<close>, and \<open>hexstr\<close> prints
  the digits back.\<close>

lemma digits16_hex:
  assumes "list_all lower_hex h"
  shows "digits16 False acc h = Some (hexnat acc h)"
  using assms
proof (induction h arbitrary: acc)
  case Nil
  then show ?case by simp
next
  case (Cons c h)
  from Cons.prems have c: "lower_hex c" and h: "list_all lower_hex h" by simp_all
  from lower_hex_digit [OF c] obtain d where "digit_val c = Some d" by blast
  with lower_hex_plain(6) [OF c] Cons.IH [OF h] show ?case by simp
qed

lemma hexnat_snoc:
  "hexnat acc (h @ [c]) = 16 * hexnat acc h + (case digit_val c of Some d \<Rightarrow> d | None \<Rightarrow> 0)"
  by (induction h arbitrary: acc) simp_all

lemma hexnat_bound:
  assumes "list_all lower_hex h"
  shows "hexnat 0 h < 16 ^ length h"
  using assms
proof (induction h rule: rev_induct)
  case Nil
  then show ?case by simp
next
  case (snoc c h)
  from snoc.prems have c: "lower_hex c" and h: "list_all lower_hex h" by simp_all
  from lower_hex_digit [OF c] obtain d where d: "d < 16" "digit_val c = Some d" by blast
  from snoc.IH [OF h] have "hexnat 0 h + 1 \<le> 16 ^ length h" by simp
  then have "16 * (hexnat 0 h + 1) \<le> 16 * 16 ^ length h" by (rule mult_le_mono2)
  with d show ?case by (simp add: hexnat_snoc)
qed

lemma hexstr_hexnat:
  assumes "list_all lower_hex h"
  shows "hexstr (length h) (hexnat 0 h) = h"
  using assms
proof (induction h rule: rev_induct)
  case Nil
  then show ?case by simp
next
  case (snoc c h)
  from snoc.prems have c: "lower_hex c" and h: "list_all lower_hex h" by simp_all
  from lower_hex_digit [OF c] obtain d where d: "d < 16" "digit_val c = Some d" "hex_char d = c"
    by blast
  from d(1) have "(16 * hexnat 0 h + d) div 16 = hexnat 0 h" and "(16 * hexnat 0 h + d) mod 16 = d"
    by simp_all
  with d snoc.IH [OF h] show ?case by (simp add: hexnat_snoc)
qed

text \<open>\<^verbatim>\<open>'%032x'\<close> prints exactly the 32 low digits of a number below \<open>16 ^ 32\<close>.\<close>

lemma hexstr_zero: "hexstr k 0 = replicate k CHR ''0''"
  by (induction k) (simp_all add: hex_char_def replicate_append_same)

lemma pad_to_hex:
  assumes "n < 16 ^ k" and "0 < k"
  shows "replicate (k - length (to_hex n)) CHR ''0'' @ to_hex n = hexstr k n"
  using assms
proof (induction n arbitrary: k rule: to_hex.induct)
  case (1 n)
  from "1.prems"(2) obtain j where k: "k = Suc j" by (cases k) auto
  show ?case
  proof (cases "n < 16")
    case True
    then show ?thesis by (simp add: k to_hex.simps [of n] hexstr_zero)
  next
    case False
    with "1.prems"(1) have j: "0 < j" by (cases j) (auto simp: k)
    from "1.prems"(1) have "n div 16 < 16 ^ j"
      by (simp add: k less_mult_imp_div_less mult.commute)
    from "1.IH" [OF False this j] False show ?thesis
      by (simp add: k to_hex.simps [of n])
  qed
qed

lemma format_032x_hexnat:
  assumes "list_all lower_hex h" and "length h = 32"
  shows "format_032x (hexnat 0 h) = h"
proof -
  from hexnat_bound [OF assms(1)] assms(2) have "hexnat 0 h < 16 ^ 32" by simp
  from pad_to_hex [OF this] hexstr_hexnat [OF assms(1)] assms(2) show ?thesis
    by (simp add: format_032x_def Let_def)
qed

lemma py_int16_hex:
  assumes "list_all lower_hex h" and "2 \<le> length h"
  shows "py_int16 h = Some (int (hexnat 0 h))"
proof -
  from assms(2) obtain c0 c1 r where h: "h = c0 # c1 # r"
    by (cases h; cases "tl h") auto
  from assms(1) h have c0: "lower_hex c0" and c1: "lower_hex c1" by simp_all
  from assms(1) h have "lower_hex (last h)"
    by (metis last_in_set list.distinct(1) list_all_iff)
  with c0 h have strip: "strip_chars py_isspace h = h"
    using lower_hex_plain(9) by (intro strip_chars_id) auto
  have "take 2 h = [c0, c1]" by (simp add: h)
  with lower_hex_plain(7,8) [OF c1] have nopre: "take 2 h \<noteq> ''0x''" "take 2 h \<noteq> ''0X''"
    by auto
  from lower_hex_plain(1,5,6) [OF c0] h have sign: "hd h \<noteq> CHR ''+''" "hd h \<noteq> CHR ''-''"
    "hd h \<noteq> CHR ''_''" "h \<noteq> []"
    by auto
  show ?thesis
    unfolding py_int16_def strip Let_def
    using nopre sign digits16_hex [OF assms(1), of 0] by simp
qed

lemma filter_lower_hex:
  assumes "list_all lower_hex a"
  shows "filter (\<lambda>x. x \<noteq> CHR ''-'') a = a"
  using assms lower_hex_plain(1) by (induction a) auto

text \<open>Parsing the canonical text and printing the identifier gives the text back.\<close>

lemma uuid_text_roundtrip:
  assumes len: "length a = 8" "length b = 4" "length c = 4" "length d = 4" "length e = 12"
    and hex: "list_all lower_hex a" "list_all lower_hex b" "list_all lower_hex c"
      "list_all lower_hex d" "list_all lower_hex e"
  defines "s \<equiv> a @ ''-'' @ b @ ''-'' @ c @ ''-'' @ d @ ''-'' @ e"
  shows "uuid_UUID (VStr s) = Inr (VUuid (hexnat 0 (a @ b @ c @ d @ e)))"
    and "uuid_str (hexnat 0 (a @ b @ c @ d @ e)) = s"
proof -
  let ?h = "a @ b @ c @ d @ e"
  have hh: "list_all lower_hex ?h" and lh: "length ?h = 32"
    using len hex by simp_all
  have chars: "\<forall>x \<in> set s. lower_hex x \<or> x = CHR ''-''"
    using hex by (auto simp: s_def list_all_iff)
  then have nocolon: "CHR '':'' \<notin> set s"
    using lower_hex_plain(2) by auto
  have urn: "remove_sub ''urn:'' s = s"
    by (rule remove_sub_absent [OF _ nocolon]) simp
  have uuid: "remove_sub ''uuid:'' s = s"
    by (rule remove_sub_absent [OF _ nocolon]) simp
  from len obtain a0 ar where a: "a = a0 # ar" by (cases a) auto
  from len obtain e0 er where e: "e = er @ [e0]" by (cases e rule: rev_cases) auto
  from hex a e have "lower_hex a0" and "lower_hex e0" by simp_all
  then have ends: "\<not> (hd s = CHR ''{'' \<or> hd s = CHR ''}'')" "\<not> (last s = CHR ''{'' \<or> last s = CHR ''}'')"
    using lower_hex_plain(3,4) by (auto simp: s_def a e)
  have "s \<noteq> []" by (simp add: s_def)
  from strip_chars_id [of s "\<lambda>c. c = CHR ''{'' \<or> c = CHR ''}''", OF this ends]
  have strip: "strip_chars (\<lambda>c. c = CHR ''{'' \<or> c = CHR ''}'') s = s" .
  have hyph: "remove_sub ''-'' s = ?h"
    using hex by (simp add: remove_sub_single s_def filter_lower_hex)
  from py_int16_hex [OF hh] lh have int: "py_int16 ?h = Some (int (hexnat 0 ?h))" by simp
  from hexnat_bound [OF hh] lh have "hexnat 0 ?h < 16 ^ 32" by simp
  then have "hexnat 0 ?h < 2 ^ 128" by simp
  then have bound: "int (hexnat 0 ?h) < 2 ^ 128"
    by (metis of_nat_less_iff of_nat_numeral of_nat_power)
  show "uuid_UUID (VStr s) = Inr (VUuid (hexnat 0 ?h))"
    using lh bound by (simp add: uuid_UUID_def urn uuid strip hyph int Let_def del: append_assoc)
  show "uuid_str (hexnat 0 ?h) = s"
    using len by (simp add: uuid_str_def format_032x_hexnat [OF hh lh] Let_def s_def)
qed

lemma canonical_uuid_split:
  assumes "canonical_uuid s"
  shows "s = take 8 s @ ''-'' @ take 4 (drop 9 s) @ ''-'' @ take 4 (drop 14 s) @ ''-'' @
             take 4 (drop 19 s) @ ''-'' @ drop 24 s"
proof -
  from assms have len: "length s = 36"
    and h: "s ! 8 = CHR ''-''" "s ! 13 = CHR ''-''" "s ! 18 = CHR ''-''" "s ! 23 = CHR ''-''"
    by (simp_all add: canonical_uuid_def)
  have d8: "drop 8 s = CHR ''-'' # drop 9 s"
    using Cons_nth_drop_Suc [of 8 s] len h by simp
  have d13: "drop 13 s = CHR ''-'' # drop 14 s"
    using Cons_nth_drop_Suc [of 13 s] len h by simp
  have d18: "drop 18 s = CHR ''-'' # drop 19 s"
    using Cons_nth_drop_Suc [of 18 s] len h by simp
  have d23: "drop 23 s = CHR ''-'' # drop 24 s"
    using Cons_nth_drop_Suc [of 23 s] len h by simp
  have "s = take 8 s @ drop 8 s" by simp
  also have "drop 8 s = CHR ''-'' # (take 4 (drop 9 s) @ drop 13 s)"
    using d8 append_take_drop_id [of 4 "drop 9 s"] by simp
  also have "drop 13 s = CHR ''-'' # (take 4 (drop 14 s) @ drop 18 s)"
    using d13 append_take_drop_id [of 4 "drop 14 s"] by simp
  also have "drop 18 s = CHR ''-'' # (take 4 (drop 19 s) @ drop 23 s)"
    using d18 append_take_drop_id [of 4 "drop 19 s"] by simp
  also have "drop 23 s = CHR ''-'' # drop 24 s" by (rule d23)
  finally show ?thesis by simp
qed

lemma uuid_roundtrip:
  assumes "canonical_uuid s"
  shows "\<exists>n. uuid_UUID (VStr s) = Inr (VUuid n) \<and> uuid_str n = s"
proof -
  let ?a = "take 8 s" and ?b = "take 4 (drop 9 s)" and ?c = "take 4 (drop 14 s)"
  let ?d = "take 4 (drop 19 s)" and ?e = "drop 24 s"
  from assms have len: "length ?a = 8" "length ?b = 4" "length ?c = 4" "length ?d = 4"
      "length ?e = 12"
    and hex: "list_all lower_hex ?a" "list_all lower_hex ?b" "list_all lower_hex ?c"
      "list_all lower_hex ?d" "list_all lower_hex ?e"
    by (simp_all add: canonical_uuid_def)
  from uuid_text_roundtrip [OF len hex] canonical_uuid_split [OF assms]
  show ?thesis by metis
qed

lemma canonical_sample: "canonical_uuid ''123e4567-e89b-12d3-a456-426614174000''"
  by (simp add: canonical_uuid_def lower_hex_def)

text \<open>A text in upper case is accepted and printed back in lower case: the one place
  where the conversion normalises.\<close>

lemma upper_case_uuid_normalised:
  "create_instance env (Plain UniqueIdType b) (VStr ''123E4567-E89B-12D3-A456-426614174000'')
     = Inr (VUuid 24249434048109030647017182301789831168) \<and>
   to_model_data env (Plain UniqueIdType b) (VUuid 24249434048109030647017182301789831168)
     = Inr (VStr ''123e4567-e89b-12d3-a456-426614174000'')"
proof -
  have "remove_sub ''urn:'' ''123E4567-E89B-12D3-A456-426614174000''
          = ''123E4567-E89B-12D3-A456-426614174000''"
    by (rule remove_sub_absent [of "CHR '':''"]) simp_all
  moreover have "remove_sub ''uuid:'' ''123E4567-E89B-12D3-A456-426614174000''
          = ''123E4567-E89B-12D3-A456-426614174000''"
    by (rule remove_sub_absent [of "CHR '':''"]) simp_all
  ultimately have "uuid_UUID (VStr ''123E4567-E89B-12D3-A456-426614174000'')
          = Inr (VUuid 24249434048109030647017182301789831168)"
    by (simp add: uuid_UUID_def remove_sub_single strip_chars_def py_int16_def py_isspace_def
                  digit_val_def Let_def)
  moreover have "canonical_uuid ''123e4567-e89b-12d3-a456-426614174000''" by (rule canonical_sample)
  from uuid_roundtrip [OF this] obtain n where
    "uuid_UUID (VStr ''123e4567-e89b-12d3-a456-426614174000'') = Inr (VUuid n)"
    "uuid_str n = ''123e4567-e89b-12d3-a456-426614174000''" by blast
  moreover have "uuid_UUID (VStr ''123e4567-e89b-12d3-a456-426614174000'')
          = Inr (VUuid 24249434048109030647017182301789831168)"
    by (simp add: uuid_UUID_def remove_sub_absent [of "CHR '':''"] remove_sub_single
                  strip_chars_def py_int16_def py_isspace_def digit_val_def Let_def)
  ultimately show ?thesis by (simp add: py_str_def)
qed

section \<open>The round trip\<close>














text \<open>
  With the sample hashing module, whose hashed values all render as \<^verbatim>\<open>hash\<close>, the text
  \<^verbatim>\<open>secret\<close> does not come back from \<^verbatim>\<open>HashType\<close>: nothing in this module makes it.
\<close>

lemma hashed_text_not_returned:
  "create_instance sample_interp (Plain HashType plain) (VStr ''secret'')
     = Inr (VObj 2 ''Hashed'' [(''raw'', VStr ''secret'')]) \<and>
   to_model_data sample_interp (Plain HashType plain)
     (VObj 2 ''Hashed'' [(''raw'', VStr ''secret'')]) = Inr (VStr ''hash'') \<and>
   \<not> py_equals (VStr ''hash'') (VStr ''secret'')"
  by (simp add: sample_interp_def py_str_def py_equals_def)

end
